theory Spec2Isabelle
  imports Complex_Main "HOL-Library.AList"
begin

section \<open>Payload values\<close>

text \<open>
  The request payload of a bulk operation is parsed JSON: \<^verbatim>\<open>None\<close>, booleans,
  integers, floats, strings, lists and dicts with string keys. A dict is an association
  list in insertion order; a well-formed one has distinct keys.
  A float is a rational (every finite double is one; \<^verbatim>\<open>-0.0\<close> is \<open>Finite 0\<close>),
  an infinity or a NaN.
\<close>

datatype pyfloat = Finite rat | PosInf | NegInf | NaN

datatype pyval =
    PyNone
  | PyBool bool
  | PyInt int
  | PyFloat pyfloat
  | PyStr string
  | PyList "pyval list"
  | PyDict "(string \<times> pyval) list"

type_synonym dict = "(string \<times> pyval) list"

text \<open>Python's truth value of an object, as \<^verbatim>\<open>if value_\<close> tests it.\<close>

fun truthy :: "pyval \<Rightarrow> bool" where
  "truthy PyNone = False"
| "truthy (PyBool b) = b"
| "truthy (PyInt n) = (n \<noteq> 0)"
| "truthy (PyFloat f) = (f \<noteq> Finite 0)"
| "truthy (PyStr s) = (s \<noteq> [])"
| "truthy (PyList xs) = (xs \<noteq> [])"
| "truthy (PyDict d) = (d \<noteq> [])"

text \<open>
  \<^verbatim>\<open>d.update(other)\<close>: every item of \<open>other\<close>, in order, replaces the value of its
  key where the key exists (the key keeps its position) and is appended otherwise.
  \<^verbatim>\<open>d.get(key)\<close> is \<^verbatim>\<open>None\<close> for a missing key.
\<close>

definition dict_update :: "dict \<Rightarrow> dict \<Rightarrow> dict" where
  "dict_update d other = fold (\<lambda>(k, v). AList.update k v) other d"

definition dict_get :: "dict \<Rightarrow> string \<Rightarrow> pyval" where
  "dict_get d k = (case map_of d k of None \<Rightarrow> PyNone | Some v \<Rightarrow> v)"

section \<open>Exceptions\<close>

text \<open>
  The three \<^verbatim>\<open>ValidationError({'payload': ...})\<close> of \<^verbatim>\<open>__build_db_queries\<close> are told
  apart by their message; the message carries the value that the source formats into it
  with \<^verbatim>\<open>json.dumps\<close>. \<open>Raised\<close> is an exception of a collaborator (a store, the
  object lookup).
\<close>

datatype message =
    QueryAndIdsTogether
  | InvalidQuery pyval
  | InvalidSubmissionIds pyval

datatype exn =
    ValidationError message
  | NoConfirmationProvidedException
  | TypeError
  | ValueError
  | OverflowError
  | Raised string

section \<open>Forms, stores and the environment\<close>

record user =
  username :: string

record xform =
  xform_id :: int
  user :: user
  id_string :: string

text \<open>
  An operation issued to a store: the document store read of
  \<^verbatim>\<open>ParsedInstance.query_mongo_no_paging\<close> (query, projected fields), the relational
  delete \<^verbatim>\<open>Instance.objects.filter(**q).delete()\<close>, the document delete
  \<^verbatim>\<open>ParsedInstance.bulk_delete(q)\<close>, and the two updates of the form that the delete
  signals would do (form id; form id and number of deleted rows).
\<close>

datatype store_op =
    MongoFind dict "string list"
  | PostgresDelete dict
  | MongoDelete dict
  | NullifyExportsTime int
  | UpdateSubmissionCount int int

fun is_read :: "store_op \<Rightarrow> bool" where
  "is_read (MongoFind q fs) = True"
| "is_read other = False"

text \<open>
  What the view calls and this file does not define: the stores, the object lookup of
  the framework, and Python's \<^verbatim>\<open>int()\<close> on a \<^verbatim>\<open>str\<close> (\<open>None\<close> where it raises
  \<^verbatim>\<open>ValueError\<close>). Each is a function giving the outcome of the call.
  The source hands the document store the query as JSON text (\<^verbatim>\<open>json.dumps(query)\<close>)
  and the projection as the text \<^verbatim>\<open>'["_id"]'\<close>; here the store takes the dict and
  the list of field names themselves.
\<close>

record env =
  int_of_str :: "string \<Rightarrow> int option"
  get_object :: "exn + xform"
  query_mongo_no_paging :: "dict \<Rightarrow> string list \<Rightarrow> exn + dict list"
  filter_delete :: "dict \<Rightarrow> exn + int \<times> (string \<times> int) list"
  parsed_instance_bulk_delete :: "dict \<Rightarrow> exn + unit"
  nullify_exports_time_of_last_submission :: "xform \<Rightarrow> exn + unit"
  update_xform_submission_count_delete :: "xform \<Rightarrow> int \<Rightarrow> exn + unit"

section \<open>Python built-ins used by the resolver\<close>

text \<open>
  \<^verbatim>\<open>int(x)\<close>: an integer is itself, a boolean is 0 or 1, a finite float is truncated
  towards zero, a NaN raises \<^verbatim>\<open>ValueError\<close>, an infinity \<^verbatim>\<open>OverflowError\<close>, a string
  is parsed, and \<^verbatim>\<open>None\<close>, a list or a dict raise \<^verbatim>\<open>TypeError\<close>.
\<close>

fun py_int :: "(string \<Rightarrow> int option) \<Rightarrow> pyval \<Rightarrow> exn + int" where
  "py_int parse (PyInt n) = Inr n"
| "py_int parse (PyBool b) = Inr (if b then 1 else 0)"
| "py_int parse (PyFloat (Finite r)) = Inr (if 0 \<le> r then \<lfloor>r\<rfloor> else \<lceil>r\<rceil>)"
| "py_int parse (PyFloat NaN) = Inl ValueError"
| "py_int parse (PyFloat PosInf) = Inl OverflowError"
| "py_int parse (PyFloat NegInf) = Inl OverflowError"
| "py_int parse (PyStr s) = (case parse s of None \<Rightarrow> Inl ValueError | Some n \<Rightarrow> Inr n)"
| "py_int parse PyNone = Inl TypeError"
| "py_int parse (PyList xs) = Inl TypeError"
| "py_int parse (PyDict d) = Inl TypeError"

text \<open>
  \<^verbatim>\<open>iter(x)\<close>, as a \<^verbatim>\<open>for\<close> clause runs it: the elements of a list, the characters of
  a string (each a string of length one), the keys of a dict; anything else is not
  iterable.
\<close>

fun py_iter :: "pyval \<Rightarrow> exn + pyval list" where
  "py_iter (PyList xs) = Inr xs"
| "py_iter (PyStr s) = Inr (map (\<lambda>c. PyStr [c]) s)"
| "py_iter (PyDict d) = Inr (map (\<lambda>(k, v). PyStr k) d)"
| "py_iter other = Inl TypeError"

text \<open>
  The comprehension \<^verbatim>\<open>[int(submission_id) for submission_id in submission_ids]\<close>:
  elements are converted left to right and the first exception ends it.
\<close>

fun int_each :: "(string \<Rightarrow> int option) \<Rightarrow> pyval list \<Rightarrow> exn + int list" where
  "int_each parse [] = Inr []"
| "int_each parse (x # xs) =
     (case py_int parse x of
        Inl e \<Rightarrow> Inl e
      | Inr n \<Rightarrow> (case int_each parse xs of Inl e \<Rightarrow> Inl e | Inr ns \<Rightarrow> Inr (n # ns)))"

section \<open>The filter resolver: \<^verbatim>\<open>DataViewSet.__build_db_queries\<close>\<close>

text \<open>
  Modelled from the spec: \<^verbatim>\<open>ParsedInstance.get_base_query\<close> is called by the resolver
  and is not among the sources. The spec describes the scope as a document-store scoping
  key derived from owner username and form identifier string; the key is the one the
  resolver's comment names (\<^verbatim>\<open>_userform_id\<close>), the value joins the two strings.
\<close>

definition get_base_query :: "string \<Rightarrow> string \<Rightarrow> dict" where
  "get_base_query uname idstr =
     [(''_userform_id'', PyStr (uname @ ''_'' @ idstr))]"

text \<open>
  What a call of the resolver leaves behind: the exception or the pair
  (PostgreSQL filters, Mongo filters), the request data after the call (the resolver
  updates the dict under \<^verbatim>\<open>query\<close> in place, and \<^verbatim>\<open>payload\<close> shares that dict with
  the request data), and the store operations it issued, in order.
\<close>

record resolution =
  result :: "exn + dict \<times> dict"
  request_data_after :: dict
  store_ops :: "store_op list"

text \<open>
  The first scenario, from \<^verbatim>\<open>query = payload['query']\<close> to the list of ids read from
  the cursor. It gives the exception raised or the new \<^verbatim>\<open>instance_ids\<close>, with the
  request data and the store operations after it.
\<close>

definition query_scenario ::
  "env \<Rightarrow> dict \<Rightarrow> dict \<Rightarrow> dict \<Rightarrow> (exn + pyval list option) \<times> dict \<times> store_op list" where
  "query_scenario e mongo_query payload request_data =
     (case map_of payload ''query'' of
        None \<Rightarrow> (Inr None, request_data, [])
      | Some (PyDict q) \<Rightarrow>
          (let query = dict_update q mongo_query;
               request_data' = AList.update ''query'' (PyDict query) request_data;
               fields = [''_id'']
           in case query_mongo_no_paging e query fields of
                Inl err \<Rightarrow> (Inl err, request_data', [MongoFind query fields])
              | Inr cursor \<Rightarrow>
                  (Inr (Some (map (\<lambda>record. dict_get record ''_id'') cursor)),
                   request_data', [MongoFind query fields]))
      | Some query \<Rightarrow> (Inl (ValidationError (InvalidQuery query)), request_data, []))"

text \<open>
  The second scenario, from \<^verbatim>\<open>submission_ids = payload['submission_ids']\<close>: only
  \<^verbatim>\<open>ValueError\<close> is caught and turned into a \<^verbatim>\<open>ValidationError\<close>.
\<close>

definition submission_ids_scenario ::
  "env \<Rightarrow> dict \<Rightarrow> pyval list option \<Rightarrow> exn + pyval list option" where
  "submission_ids_scenario e payload instance_ids =
     (case map_of payload ''submission_ids'' of
        None \<Rightarrow> Inr instance_ids
      | Some submission_ids \<Rightarrow>
          (case py_iter submission_ids of
             Inl err \<Rightarrow> Inl err
           | Inr elements \<Rightarrow>
               (case int_each (int_of_str e) elements of
                  Inl ValueError \<Rightarrow> Inl (ValidationError (InvalidSubmissionIds submission_ids))
                | Inl err \<Rightarrow> Inl err
                | Inr ns \<Rightarrow> Inr (Some (map PyInt ns)))))"

text \<open>
  The resolver: the base filters, the payload without its empty values, the check that
  \<^verbatim>\<open>query\<close> and \<^verbatim>\<open>submission_ids\<close> do not come together, the two scenarios in
  turn, and the narrowing by ids or, with no ids, the test \<^verbatim>\<open>is not True\<close> on
  \<^verbatim>\<open>payload.get('confirm', False)\<close>.
\<close>

definition build_db_queries :: "env \<Rightarrow> xform \<Rightarrow> dict \<Rightarrow> resolution" where
  "build_db_queries e form request_data =
     (let mongo_query = get_base_query (username (user form)) (id_string form);
          postgres_query = [(''xform_id'', PyInt (xform_id form))];
          payload = filter (\<lambda>(key, val). truthy val) request_data
      in if list_all (\<lambda>key. key \<in> fst ` set payload) [''query'', ''submission_ids'']
         then \<lparr>result = Inl (ValidationError QueryAndIdsTogether),
               request_data_after = request_data, store_ops = []\<rparr>
         else
           (case query_scenario e mongo_query payload request_data of
              (Inl err, request_data', ops) \<Rightarrow>
                \<lparr>result = Inl err, request_data_after = request_data', store_ops = ops\<rparr>
            | (Inr instance_ids, request_data', ops) \<Rightarrow>
                (case submission_ids_scenario e payload instance_ids of
                   Inl err \<Rightarrow>
                     \<lparr>result = Inl err, request_data_after = request_data', store_ops = ops\<rparr>
                 | Inr (Some ids) \<Rightarrow>
                     \<lparr>result = Inr (dict_update postgres_query [(''id__in'', PyList ids)],
                                    dict_update mongo_query
                                      [(''_id'', PyDict [(''$in'', PyList ids)])]),
                      request_data_after = request_data', store_ops = ops\<rparr>
                 | Inr None \<Rightarrow>
                     (if map_of payload ''confirm'' \<noteq> Some (PyBool True)
                      then \<lparr>result = Inl NoConfirmationProvidedException,
                            request_data_after = request_data', store_ops = ops\<rparr>
                      else \<lparr>result = Inr (postgres_query, mongo_query),
                            request_data_after = request_data', store_ops = ops\<rparr>))))"

text \<open>
  A dict contains a fragment when it binds every key of the fragment to the fragment's
  value.
\<close>

definition dict_contains :: "dict \<Rightarrow> dict \<Rightarrow> bool" where
  "dict_contains d fragment = list_all (\<lambda>(k, v). map_of d k = Some v) fragment"

section \<open>Signals\<close>

text \<open>
  The dispatcher of the framework, as far as \<^verbatim>\<open>bulk_delete\<close> uses it. A signal keeps
  a list of (lookup key, receiver); the key is (dispatch uid, sender) when a
  \<^verbatim>\<open>dispatch_uid\<close> is given and (receiver, sender) otherwise. \<^verbatim>\<open>connect\<close> appends the
  entry unless the key is registered, \<^verbatim>\<open>disconnect\<close> deletes the first entry with the
  key, and sending the signal for a sender calls the receivers registered for it.
\<close>

datatype sender = Instance | ParsedInstance | OtherSender string

datatype receiver =
    Remove_from_mongo
  | Nullify_exports_time_of_last_submission
  | Update_xform_submission_count_delete
  | OtherReceiver string

datatype lookup_key = ByUid string sender | ByReceiver receiver sender

type_synonym signal = "(lookup_key \<times> receiver) list"

fun key_sender :: "lookup_key \<Rightarrow> sender" where
  "key_sender (ByUid uid s) = s"
| "key_sender (ByReceiver r s) = s"

definition make_key :: "receiver \<Rightarrow> sender \<Rightarrow> string option \<Rightarrow> lookup_key" where
  "make_key r s dispatch_uid =
     (case dispatch_uid of Some uid \<Rightarrow> ByUid uid s | None \<Rightarrow> ByReceiver r s)"

definition connect :: "receiver \<Rightarrow> sender \<Rightarrow> string option \<Rightarrow> signal \<Rightarrow> signal" where
  "connect r s dispatch_uid receivers =
     (let key = make_key r s dispatch_uid
      in if key \<in> fst ` set receivers then receivers else receivers @ [(key, r)])"

fun delete_first :: "lookup_key \<Rightarrow> signal \<Rightarrow> signal" where
  "delete_first key [] = []"
| "delete_first key ((k, r) # rest) =
     (if k = key then rest else (k, r) # delete_first key rest)"

definition disconnect :: "receiver \<Rightarrow> sender \<Rightarrow> string option \<Rightarrow> signal \<Rightarrow> signal" where
  "disconnect r s dispatch_uid receivers = delete_first (make_key r s dispatch_uid) receivers"

definition live_receivers :: "signal \<Rightarrow> sender \<Rightarrow> receiver list" where
  "live_receivers receivers s = map snd (filter (\<lambda>(key, r). key_sender key = s) receivers)"

section \<open>Bulk delete: \<^verbatim>\<open>DataViewSet.bulk_delete\<close>\<close>

text \<open>
  The state a request runs in: the two signals of the process, \<^verbatim>\<open>request.data\<close>, and
  the operations issued to the stores so far.
\<close>

record world =
  pre_delete :: signal
  post_delete :: signal
  data :: dict
  store_log :: "store_op list"

datatype detail = SubmissionsDeleted int

datatype response = Response detail nat

text \<open>
  \<^verbatim>\<open>f'{Instance._meta.app_label}.Instance'\<close>; the model lives in the application
  \<^verbatim>\<open>onadata.apps.logger\<close>.
\<close>

definition instance_identifier :: string where
  "instance_identifier = ''logger.Instance''"

text \<open>The three \<^verbatim>\<open>disconnect\<close> calls before the \<^verbatim>\<open>try\<close>.\<close>

definition disconnect_signals :: "world \<Rightarrow> world" where
  "disconnect_signals w =
     (let w1 = w\<lparr>pre_delete := disconnect Remove_from_mongo ParsedInstance None (pre_delete w)\<rparr>;
          w2 = w1\<lparr>post_delete :=
                 disconnect Nullify_exports_time_of_last_submission Instance
                   (Some ''nullify_exports_time_of_last_submission'') (post_delete w1)\<rparr>
      in w2\<lparr>post_delete :=
              disconnect Update_xform_submission_count_delete Instance
                (Some ''update_xform_submission_count_delete'') (post_delete w2)\<rparr>)"

text \<open>The \<^verbatim>\<open>finally\<close> block.\<close>

definition connect_signals :: "world \<Rightarrow> world" where
  "connect_signals w =
     (let w1 = w\<lparr>pre_delete := connect Remove_from_mongo ParsedInstance None (pre_delete w)\<rparr>;
          w2 = w1\<lparr>post_delete :=
                 connect Nullify_exports_time_of_last_submission Instance
                   (Some ''nullify_exports_time_of_last_submission'') (post_delete w1)\<rparr>
      in w2\<lparr>post_delete :=
              connect Update_xform_submission_count_delete Instance
                (Some ''update_xform_submission_count_delete'') (post_delete w2)\<rparr>)"

text \<open>
  The body of the \<^verbatim>\<open>try\<close>: the relational delete, the count of deleted
  \<^verbatim>\<open>Instance\<close> rows (0 when the result has no entry for the model; the warning
  logged then is left out), the document
  delete, and the two updates of the form. It gives the exception raised or
  \<^verbatim>\<open>deleted_records_count\<close>.
\<close>

definition delete_postgres_and_mongo ::
  "env \<Rightarrow> xform \<Rightarrow> dict \<Rightarrow> dict \<Rightarrow> world \<Rightarrow> (exn + int) \<times> world" where
  "delete_postgres_and_mongo e form postgres_query mongo_query w =
     (let w1 = w\<lparr>store_log := store_log w @ [PostgresDelete postgres_query]\<rparr>
      in case filter_delete e postgres_query of
           Inl err \<Rightarrow> (Inl err, w1)
         | Inr (all_count, results) \<Rightarrow>
             (let deleted_records_count =
                    (case map_of results instance_identifier of Some n \<Rightarrow> n | None \<Rightarrow> 0);
                  w2 = w1\<lparr>store_log := store_log w1 @ [MongoDelete mongo_query]\<rparr>
              in case parsed_instance_bulk_delete e mongo_query of
                   Inl err \<Rightarrow> (Inl err, w2)
                 | Inr u \<Rightarrow>
                     (let w3 = w2\<lparr>store_log :=
                                   store_log w2 @ [NullifyExportsTime (xform_id form)]\<rparr>
                      in case nullify_exports_time_of_last_submission e form of
                           Inl err \<Rightarrow> (Inl err, w3)
                         | Inr u \<Rightarrow>
                             (let w4 = w3\<lparr>store_log :=
                                           store_log w3 @
                                           [UpdateSubmissionCount (xform_id form)
                                              deleted_records_count]\<rparr>
                              in case update_xform_submission_count_delete e form
                                        deleted_records_count of
                                   Inl err \<Rightarrow> (Inl err, w4)
                                 | Inr u \<Rightarrow> (Inr deleted_records_count, w4)))))"

definition bulk_delete :: "env \<Rightarrow> world \<Rightarrow> (exn + response) \<times> world" where
  "bulk_delete e w =
     (case get_object e of
        Inl err \<Rightarrow> (Inl err, w)
      | Inr form \<Rightarrow>
          (let r = build_db_queries e form (data w);
               w1 = w\<lparr>data := request_data_after r,
                       store_log := store_log w @ store_ops r\<rparr>
           in case result r of
                Inl err \<Rightarrow> (Inl err, w1)
              | Inr (postgres_query, mongo_query) \<Rightarrow>
                  (case delete_postgres_and_mongo e form postgres_query mongo_query
                          (disconnect_signals w1) of
                     (Inl err, w2) \<Rightarrow> (Inl err, connect_signals w2)
                   | (Inr deleted_records_count, w2) \<Rightarrow>
                       (Inr (Response (SubmissionsDeleted deleted_records_count) 200),
                        connect_signals w2))))"

text \<open>
  The per-row side effects of deleting one submission (\<^verbatim>\<open>instance.delete()\<close> in
  \<^verbatim>\<open>destroy\<close>): the receivers that the delete signals call for the row and for its
  parsed instance.
\<close>

definition single_delete_receivers :: "world \<Rightarrow> receiver list" where
  "single_delete_receivers w =
     live_receivers (pre_delete w) ParsedInstance @ live_receivers (post_delete w) Instance"

definition triggers_connected :: "world \<Rightarrow> bool" where
  "triggers_connected w \<longleftrightarrow>
     Remove_from_mongo \<in> set (live_receivers (pre_delete w) ParsedInstance) \<and>
     Nullify_exports_time_of_last_submission \<in> set (live_receivers (post_delete w) Instance) \<and>
     Update_xform_submission_count_delete \<in> set (live_receivers (post_delete w) Instance)"

definition signals_wf :: "world \<Rightarrow> bool" where
  "signals_wf w \<longleftrightarrow> distinct (map fst (pre_delete w)) \<and> distinct (map fst (post_delete w))"

section \<open>A sample deployment\<close>

text \<open>
  A form of user \<^verbatim>\<open>bob\<close>, a decimal reading of digit strings, a document store that
  answers every query with the documents 2 and 3, a relational store that is down, and
  the signals as the models connect them at import.
\<close>

definition sample_form :: xform where
  "sample_form = \<lparr>xform_id = 7, user = \<lparr>username = ''bob''\<rparr>, id_string = ''survey''\<rparr>"

definition read_digits :: "string \<Rightarrow> int option" where
  "read_digits s =
     (if s \<noteq> [] \<and> list_all (\<lambda>c. 48 \<le> (of_char c :: nat) \<and> (of_char c :: nat) \<le> 57) s
      then Some (foldl (\<lambda>n c. 10 * n + (int (of_char c) - 48)) 0 s)
      else None)"

definition sample_env :: env where
  "sample_env =
     \<lparr>int_of_str = read_digits,
      get_object = Inr sample_form,
      query_mongo_no_paging =
        (\<lambda>q fs. Inr [[(''_id'', PyInt 2)], [(''_id'', PyInt 3)]]),
      filter_delete = (\<lambda>q. Inl (Raised ''OperationalError'')),
      parsed_instance_bulk_delete = (\<lambda>q. Inr ()),
      nullify_exports_time_of_last_submission = (\<lambda>x. Inr ()),
      update_xform_submission_count_delete = (\<lambda>x n. Inr ())\<rparr>"

definition sample_world :: world where
  "sample_world =
     \<lparr>pre_delete = [(ByReceiver Remove_from_mongo ParsedInstance, Remove_from_mongo)],
      post_delete =
        [(ByUid ''nullify_exports_time_of_last_submission'' Instance,
          Nullify_exports_time_of_last_submission),
         (ByUid ''update_xform_submission_count_delete'' Instance,
          Update_xform_submission_count_delete)],
      data = [(''submission_ids'', PyList [PyInt 2, PyStr ''3''])],
      store_log = []\<rparr>"

section \<open>Properties of the filter resolver\<close>

subsection \<open>The payload after the empty values are removed\<close>

lemma map_of_filter_truthy:
  "distinct (map fst d) \<Longrightarrow>
   map_of (filter (\<lambda>(key, val). truthy val) d) k =
     (case map_of d k of None \<Rightarrow> None | Some v \<Rightarrow> if truthy v then Some v else None)"
proof (induction d)
  case Nil
  then show ?case by simp
next
  case (Cons p d)
  obtain k' v' where p: "p = (k', v')" by (cases p)
  from Cons.prems p have notin: "k' \<notin> fst ` set d" and dist: "distinct (map fst d)"
    by auto
  from notin have none: "map_of d k' = None"
    by (simp add: map_of_eq_None_iff)
  show ?case
    using Cons.IH [OF dist] none p by (auto split: option.splits)
qed

lemma payload_absent:
  assumes "distinct (map fst d)" and "\<forall>v. map_of d k = Some v \<longrightarrow> \<not> truthy v"
  shows "map_of (filter (\<lambda>(key, val). truthy val) d) k = None"
    and "k \<notin> fst ` set (filter (\<lambda>(key, val). truthy val) d)"
proof -
  show none: "map_of (filter (\<lambda>(key, val). truthy val) d) k = None"
    using assms by (simp add: map_of_filter_truthy split: option.splits)
  show "k \<notin> fst ` set (filter (\<lambda>(key, val). truthy val) d)"
    by (rule map_of_eq_None_iff [THEN iffD1, OF none])
qed

lemma payload_present:
  assumes "distinct (map fst d)" and "map_of d k = Some v" and "truthy v"
  shows "map_of (filter (\<lambda>(key, val). truthy val) d) k = Some v"
  using assms by (simp add: map_of_filter_truthy)

subsection \<open>The base scope in the merged and in the returned filters\<close>

lemma base_in_merged:
  "dict_contains (dict_update q (get_base_query u i)) (get_base_query u i)"
  by (simp add: dict_contains_def dict_update_def get_base_query_def update_conv')

lemma merged_other_keys:
  "k \<noteq> ''_userform_id'' \<Longrightarrow> map_of (dict_update q (get_base_query u i)) k = map_of q k"
  by (simp add: dict_update_def get_base_query_def update_conv')

lemma base_in_narrowed:
  "dict_contains (dict_update (get_base_query u i) [(''_id'', v)]) (get_base_query u i)"
  by (simp add: dict_contains_def dict_update_def get_base_query_def)

lemma base_in_base: "dict_contains (get_base_query u i) (get_base_query u i)"
  by (simp add: dict_contains_def get_base_query_def)

lemma form_in_narrowed:
  "map_of (dict_update [(''xform_id'', x)] [(''id__in'', y)]) ''xform_id'' = Some x"
  by (simp add: dict_update_def)

lemma resolved_filters_scoped:
  assumes "result (build_db_queries e form request_data) = Inr (pg, mg)"
  shows "dict_contains mg (get_base_query (username (user form)) (id_string form)) \<and>
         map_of pg ''xform_id'' = Some (PyInt (xform_id form))"
  using assms
  unfolding build_db_queries_def Let_def
  by (auto simp: base_in_narrowed base_in_base form_in_narrowed
           split: if_splits prod.splits sum.splits option.splits)

subsection \<open>What the resolver issues to the stores\<close>

lemma query_scenario_ops:
  "query_scenario e mq payload rd = (res, rd', ops) \<Longrightarrow>
     list_all is_read ops \<and> length ops \<le> 1"
  unfolding query_scenario_def Let_def
  by (auto split: option.splits pyval.splits sum.splits)

lemma resolver_reads_only:
  "list_all is_read (store_ops (build_db_queries e form request_data)) \<and>
   length (store_ops (build_db_queries e form request_data)) \<le> 1"
  unfolding build_db_queries_def Let_def
  by (auto dest: query_scenario_ops split: if_splits prod.splits sum.splits option.splits)

lemma resolver_without_query:
  assumes wf: "distinct (map fst request_data)"
    and nq: "\<forall>v. map_of request_data ''query'' = Some v \<longrightarrow> \<not> truthy v"
  shows "store_ops (build_db_queries e form request_data) = [] \<and>
         request_data_after (build_db_queries e form request_data) = request_data"
  unfolding build_db_queries_def Let_def
  using payload_absent [OF wf nq]
  by (auto simp: query_scenario_def split: sum.splits option.splits)

lemma resolver_with_query:
  assumes wf: "distinct (map fst request_data)"
    and q: "map_of request_data ''query'' = Some (PyDict q)" and ne: "q \<noteq> []"
    and ns: "\<forall>v. map_of request_data ''submission_ids'' = Some v \<longrightarrow> \<not> truthy v"
  shows "build_db_queries e form request_data =
     (let base = get_base_query (username (user form)) (id_string form);
          query = dict_update q base;
          rd' = AList.update ''query'' (PyDict query) request_data
      in case query_mongo_no_paging e query [''_id''] of
           Inl err \<Rightarrow> \<lparr>result = Inl err, request_data_after = rd',
                        store_ops = [MongoFind query [''_id'']]\<rparr>
         | Inr cursor \<Rightarrow>
             \<lparr>result =
                Inr (dict_update [(''xform_id'', PyInt (xform_id form))]
                       [(''id__in'', PyList (map (\<lambda>record. dict_get record ''_id'') cursor))],
                     dict_update base
                       [(''_id'', PyDict [(''$in'',
                           PyList (map (\<lambda>record. dict_get record ''_id'') cursor))])]),
              request_data_after = rd', store_ops = [MongoFind query [''_id'']]\<rparr>)"
proof -
  have t: "truthy (PyDict q)" using ne by simp
  note pq = payload_present [OF wf q t]
  note ps = payload_absent [OF wf ns]
  show ?thesis
    unfolding build_db_queries_def Let_def
    using pq ps
    by (simp add: query_scenario_def submission_ids_scenario_def Let_def split: sum.splits)
qed

lemma resolver_conflict:
  assumes wf: "distinct (map fst request_data)"
    and q: "map_of request_data ''query'' = Some v" and tq: "truthy v"
    and s: "map_of request_data ''submission_ids'' = Some u" and ts: "truthy u"
  shows "store_ops (build_db_queries e form request_data) = [] \<and>
         request_data_after (build_db_queries e form request_data) = request_data"
proof -
  let ?payload = "filter (\<lambda>(key, val). truthy val) request_data"
  have "map_of ?payload ''query'' = Some v" and "map_of ?payload ''submission_ids'' = Some u"
    using payload_present [OF wf q tq] payload_present [OF wf s ts] by simp_all
  then have "''query'' \<in> fst ` set ?payload" and "''submission_ids'' \<in> fst ` set ?payload"
    by (metis map_of_eq_None_iff option.distinct(1))+
  then show ?thesis
    unfolding build_db_queries_def Let_def by simp
qed

lemma resolver_invalid_query:
  assumes wf: "distinct (map fst request_data)"
    and q: "map_of request_data ''query'' = Some v" and tq: "truthy v"
    and nd: "\<forall>q. v \<noteq> PyDict q"
  shows "store_ops (build_db_queries e form request_data) = [] \<and>
         request_data_after (build_db_queries e form request_data) = request_data"
proof -
  let ?payload = "filter (\<lambda>(key, val). truthy val) request_data"
  have pq: "map_of ?payload ''query'' = Some v"
    using payload_present [OF wf q tq] by simp
  have qs: "query_scenario e mq ?payload request_data =
              (Inl (ValidationError (InvalidQuery v)), request_data, [])" for mq
    using pq nd by (cases v) (simp_all add: query_scenario_def)
  show ?thesis
    unfolding build_db_queries_def Let_def by (simp add: qs)
qed

subsection \<open>The scope of the resolved filters\<close>

text \<open>
  Claim C1. Whatever the payload, filters that the resolver returns contain the base
  scope of the form (document side) and \<^verbatim>\<open>xform_id\<close> bound to the form's id
  (relational side). When the request data binds \<^verbatim>\<open>query\<close> to a mapping \<open>q\<close>, the
  query merged for the document store binds the scope key to the base scope whatever
  \<open>q\<close> binds it to and agrees with \<open>q\<close> on every other key; the resolver sends no
  other document query; and when \<open>q\<close> is not empty and no submission ids are given,
  that query is sent, and the resolver returns filters whenever the store answers.
\<close>

theorem base_scope_overrides_user_scope:
  "(let base = get_base_query (username (user form)) (id_string form);
        r = build_db_queries e form request_data
    in (\<forall>pg mg. result r = Inr (pg, mg) \<longrightarrow>
          dict_contains mg base \<and> map_of pg ''xform_id'' = Some (PyInt (xform_id form))) \<and>
       (\<forall>q. distinct (map fst request_data) \<and>
            map_of request_data ''query'' = Some (PyDict q) \<longrightarrow>
          dict_contains (dict_update q base) base \<and>
          (\<forall>k. k \<noteq> ''_userform_id'' \<longrightarrow> map_of (dict_update q base) k = map_of q k) \<and>
          (\<forall>op \<in> set (store_ops r). op = MongoFind (dict_update q base) [''_id'']) \<and>
          (q \<noteq> [] \<and> (\<forall>v. map_of request_data ''submission_ids'' = Some v \<longrightarrow> \<not> truthy v) \<longrightarrow>
             store_ops r = [MongoFind (dict_update q base) [''_id'']] \<and>
             (\<forall>cursor. query_mongo_no_paging e (dict_update q base) [''_id''] = Inr cursor \<longrightarrow>
                (\<exists>pg mg. result r = Inr (pg, mg))))))"
proof -
  let ?base = "get_base_query (username (user form)) (id_string form)"
  let ?r = "build_db_queries e form request_data"
  have scoped: "\<forall>pg mg. result ?r = Inr (pg, mg) \<longrightarrow>
          dict_contains mg ?base \<and> map_of pg ''xform_id'' = Some (PyInt (xform_id form))"
    using resolved_filters_scoped by blast
  have override: "dict_contains (dict_update q ?base) ?base \<and>
          (\<forall>k. k \<noteq> ''_userform_id'' \<longrightarrow> map_of (dict_update q ?base) k = map_of q k) \<and>
          (\<forall>op \<in> set (store_ops ?r). op = MongoFind (dict_update q ?base) [''_id'']) \<and>
          (q \<noteq> [] \<and> (\<forall>v. map_of request_data ''submission_ids'' = Some v \<longrightarrow> \<not> truthy v) \<longrightarrow>
             store_ops ?r = [MongoFind (dict_update q ?base) [''_id'']] \<and>
             (\<forall>cursor. query_mongo_no_paging e (dict_update q ?base) [''_id''] = Inr cursor \<longrightarrow>
                (\<exists>pg mg. result ?r = Inr (pg, mg))))"
    if wf: "distinct (map fst request_data)"
      and q: "map_of request_data ''query'' = Some (PyDict q)" for q
  proof -
    have run: "store_ops ?r = [MongoFind (dict_update q ?base) [''_id'']] \<and>
             (\<forall>cursor. query_mongo_no_paging e (dict_update q ?base) [''_id''] = Inr cursor \<longrightarrow>
                (\<exists>pg mg. result ?r = Inr (pg, mg)))"
      if ne: "q \<noteq> []"
        and ns: "\<forall>v. map_of request_data ''submission_ids'' = Some v \<longrightarrow> \<not> truthy v"
      by (simp add: resolver_with_query [OF wf q ne ns] Let_def split: sum.splits)
    have ops: "\<forall>op \<in> set (store_ops ?r). op = MongoFind (dict_update q ?base) [''_id'']"
    proof (cases "q \<noteq> [] \<and> (\<forall>v. map_of request_data ''submission_ids'' = Some v \<longrightarrow> \<not> truthy v)")
      case True
      then show ?thesis using run by simp
    next
      case False
      then consider (empty) "q = []"
        | (both) u where "q \<noteq> []" "map_of request_data ''submission_ids'' = Some u" "truthy u"
        by blast
      then have "store_ops ?r = []"
      proof cases
        case empty
        with q have "\<forall>v. map_of request_data ''query'' = Some v \<longrightarrow> \<not> truthy v" by simp
        from resolver_without_query [OF wf this] show ?thesis by simp
      next
        case both
        from both(1) have "truthy (PyDict q)" by simp
        from resolver_conflict [OF wf q this both(2,3)] show ?thesis by simp
      qed
      then show ?thesis by simp
    qed
    show ?thesis
      using base_in_merged merged_other_keys ops run by blast
  qed
  show ?thesis
    unfolding Let_def using scoped override by blast
qed

theorem base_scope_overrides_user_scope_witness:
  "distinct (map fst [(''query'', PyDict [(''kind'', PyStr ''monthly''),
                                           (''_userform_id'', PyStr ''alice_other'')])]) \<and>
   result (build_db_queries sample_env sample_form
             [(''query'', PyDict [(''kind'', PyStr ''monthly''),
                                  (''_userform_id'', PyStr ''alice_other'')])]) =
     Inr ([(''xform_id'', PyInt 7), (''id__in'', PyList [PyInt 2, PyInt 3])],
          [(''_userform_id'', PyStr ''bob_survey''),
           (''_id'', PyDict [(''$in'', PyList [PyInt 2, PyInt 3])])]) \<and>
   dict_contains [(''_userform_id'', PyStr ''bob_survey''),
                  (''_id'', PyDict [(''$in'', PyList [PyInt 2, PyInt 3])])]
     (get_base_query ''bob'' ''survey'') \<and>
   store_ops (build_db_queries sample_env sample_form
             [(''query'', PyDict [(''kind'', PyStr ''monthly''),
                                  (''_userform_id'', PyStr ''alice_other'')])]) =
     [MongoFind [(''kind'', PyStr ''monthly''), (''_userform_id'', PyStr ''bob_survey'')]
        [''_id'']]"
  using base_scope_overrides_user_scope
    [of sample_form sample_env
        "[(''query'', PyDict [(''kind'', PyStr ''monthly''),
                              (''_userform_id'', PyStr ''alice_other'')])]"]
  by (simp add: build_db_queries_def query_scenario_def submission_ids_scenario_def
        sample_env_def sample_form_def get_base_query_def dict_update_def dict_get_def
        dict_contains_def Let_def)

subsection \<open>Store operations of the resolver\<close>

text \<open>
  Claim C2, as stated, fails: with a non-empty mapping under \<^verbatim>\<open>query\<close> the resolver
  itself runs the document query, and it updates the request's query mapping in place.
\<close>

theorem resolver_reads_document_store_counterexample:
  "store_ops (build_db_queries sample_env sample_form
                [(''query'', PyDict [(''kind'', PyStr ''monthly'')])]) =
     [MongoFind [(''kind'', PyStr ''monthly''), (''_userform_id'', PyStr ''bob_survey'')]
        [''_id'']] \<and>
   store_ops (build_db_queries sample_env sample_form
                [(''query'', PyDict [(''kind'', PyStr ''monthly'')])]) \<noteq> [] \<and>
   request_data_after (build_db_queries sample_env sample_form
                [(''query'', PyDict [(''kind'', PyStr ''monthly'')])]) \<noteq>
     [(''query'', PyDict [(''kind'', PyStr ''monthly'')])]"
  by (simp add: build_db_queries_def query_scenario_def submission_ids_scenario_def
        sample_env_def sample_form_def get_base_query_def dict_update_def dict_get_def Let_def)

text \<open>
  Claim C2, amended. The resolver issues no store write and at most one store read.
  For request data with distinct keys: when \<^verbatim>\<open>query\<close> is a non-empty mapping and no
  non-empty \<^verbatim>\<open>submission_ids\<close> is given, it issues exactly the document-store read of
  the user's query merged with the base scope, projecting \<^verbatim>\<open>_id\<close>, and leaves the
  merged mapping under \<^verbatim>\<open>query\<close> in the request data; in every other case it issues
  nothing and leaves the request data as they were.
\<close>

theorem resolver_store_effects:
  "(let base = get_base_query (username (user form)) (id_string form);
        r = build_db_queries e form request_data
    in list_all is_read (store_ops r) \<and>
       length (store_ops r) \<le> 1 \<and>
       (distinct (map fst request_data) \<longrightarrow>
          (case map_of request_data ''query'' of
             Some (PyDict q) \<Rightarrow>
               if q \<noteq> [] \<and>
                  (\<forall>v. map_of request_data ''submission_ids'' = Some v \<longrightarrow> \<not> truthy v)
               then store_ops r = [MongoFind (dict_update q base) [''_id'']] \<and>
                    request_data_after r =
                      AList.update ''query'' (PyDict (dict_update q base)) request_data
               else store_ops r = [] \<and> request_data_after r = request_data
           | _ \<Rightarrow> store_ops r = [] \<and> request_data_after r = request_data)))"
proof -
  let ?base = "get_base_query (username (user form)) (id_string form)"
  let ?r = "build_db_queries e form request_data"
  let ?quiet = "store_ops ?r = [] \<and> request_data_after ?r = request_data"
  have shape: "(case map_of request_data ''query'' of
             Some (PyDict q) \<Rightarrow>
               if q \<noteq> [] \<and>
                  (\<forall>v. map_of request_data ''submission_ids'' = Some v \<longrightarrow> \<not> truthy v)
               then store_ops ?r = [MongoFind (dict_update q ?base) [''_id'']] \<and>
                    request_data_after ?r =
                      AList.update ''query'' (PyDict (dict_update q ?base)) request_data
               else ?quiet
           | _ \<Rightarrow> ?quiet)"
    if wf: "distinct (map fst request_data)"
  proof (cases "map_of request_data ''query''")
    case None
    then have "\<forall>v. map_of request_data ''query'' = Some v \<longrightarrow> \<not> truthy v" by simp
    from resolver_without_query [OF wf this] None show ?thesis by simp
  next
    case (Some v)
    show ?thesis
    proof (cases "truthy v")
      case False
      with Some have "\<forall>v. map_of request_data ''query'' = Some v \<longrightarrow> \<not> truthy v" by simp
      from resolver_without_query [OF wf this] Some False show ?thesis
        by (auto split: pyval.splits)
    next
      case True
      show ?thesis
      proof (cases "\<forall>u. map_of request_data ''submission_ids'' = Some u \<longrightarrow> \<not> truthy u")
        case False
        then obtain u where "map_of request_data ''submission_ids'' = Some u" "truthy u"
          by blast
        from resolver_conflict [OF wf Some True this] Some False show ?thesis
          by (simp split: pyval.splits)
      next
        case ns: True
        show ?thesis
        proof (cases "\<exists>q. v = PyDict q")
          case False
          then have "\<forall>q. v \<noteq> PyDict q" by blast
          from resolver_invalid_query [OF wf Some True this] Some False show ?thesis
            by (simp split: pyval.splits)
        next
          case True
          then obtain q where v: "v = PyDict q" by blast
          with \<open>truthy v\<close> have ne: "q \<noteq> []" by simp
          from Some v have q: "map_of request_data ''query'' = Some (PyDict q)" by simp
          show ?thesis
            using ns ne q
            by (simp add: resolver_with_query [OF wf q ne ns] Let_def split: sum.splits)
        qed
      qed
    qed
  qed
  show ?thesis
    unfolding Let_def using resolver_reads_only shape by blast
qed

theorem resolver_store_effects_witness:
  "distinct (map fst [(''query'', PyDict [(''kind'', PyStr ''monthly'')]),
                      (''confirm'', PyBool True)]) \<and>
   list_all is_read
     (store_ops (build_db_queries sample_env sample_form
        [(''query'', PyDict [(''kind'', PyStr ''monthly'')]), (''confirm'', PyBool True)])) \<and>
   store_ops (build_db_queries sample_env sample_form
        [(''query'', PyDict [(''kind'', PyStr ''monthly'')]), (''confirm'', PyBool True)]) =
     [MongoFind [(''kind'', PyStr ''monthly''), (''_userform_id'', PyStr ''bob_survey'')]
        [''_id'']] \<and>
   request_data_after (build_db_queries sample_env sample_form
        [(''query'', PyDict [(''kind'', PyStr ''monthly'')]), (''confirm'', PyBool True)]) =
     [(''query'', PyDict [(''kind'', PyStr ''monthly''),
                          (''_userform_id'', PyStr ''bob_survey'')]),
      (''confirm'', PyBool True)]"
  using resolver_store_effects
    [of sample_form sample_env
        "[(''query'', PyDict [(''kind'', PyStr ''monthly'')]), (''confirm'', PyBool True)]"]
  by (simp add: sample_form_def get_base_query_def dict_update_def Let_def)

subsection \<open>Confirmation of whole-form operations\<close>

text \<open>
  Claim C4. For request data with distinct keys in which neither \<^verbatim>\<open>query\<close> nor
  \<^verbatim>\<open>submission_ids\<close> has a non-empty value, the resolver raises
  \<^verbatim>\<open>NoConfirmationProvidedException\<close> unless \<^verbatim>\<open>confirm\<close> is the boolean
  \<^verbatim>\<open>True\<close> itself; with it, the resolver returns the filters of the whole form: the
  form id alone and the base scope alone. No store is touched either way.
\<close>

theorem confirmation_required:
  assumes wf: "distinct (map fst request_data)"
    and no_query: "\<forall>v. map_of request_data ''query'' = Some v \<longrightarrow> \<not> truthy v"
    and no_ids: "\<forall>v. map_of request_data ''submission_ids'' = Some v \<longrightarrow> \<not> truthy v"
  shows "build_db_queries e form request_data =
           \<lparr>result =
              (if map_of request_data ''confirm'' = Some (PyBool True)
               then Inr ([(''xform_id'', PyInt (xform_id form))],
                         get_base_query (username (user form)) (id_string form))
               else Inl NoConfirmationProvidedException),
            request_data_after = request_data, store_ops = []\<rparr>"
proof -
  let ?payload = "filter (\<lambda>(key, val). truthy val) request_data"
  note q = payload_absent [OF wf no_query]
  note s = payload_absent [OF wf no_ids]
  have c: "map_of ?payload ''confirm'' = Some (PyBool True) \<longleftrightarrow>
           map_of request_data ''confirm'' = Some (PyBool True)"
    by (auto simp add: map_of_filter_truthy [OF wf] split: option.splits if_splits)
  show ?thesis
    unfolding build_db_queries_def Let_def
    using q s c
    by (simp add: query_scenario_def submission_ids_scenario_def)
qed

theorem confirmation_required_witness:
  "result (build_db_queries sample_env sample_form
             [(''submission_ids'', PyList []), (''confirm'', PyStr ''true'')]) =
     Inl NoConfirmationProvidedException \<and>
   result (build_db_queries sample_env sample_form
             [(''query'', PyDict []), (''confirm'', PyInt 1)]) =
     Inl NoConfirmationProvidedException \<and>
   result (build_db_queries sample_env sample_form [(''confirm'', PyBool False)]) =
     Inl NoConfirmationProvidedException \<and>
   result (build_db_queries sample_env sample_form
             [(''submission_ids'', PyList []), (''confirm'', PyBool True)]) =
     Inr ([(''xform_id'', PyInt 7)], [(''_userform_id'', PyStr ''bob_survey'')])"
  using
    confirmation_required [of "[(''submission_ids'', PyList []), (''confirm'', PyStr ''true'')]"
                              sample_env sample_form]
    confirmation_required [of "[(''query'', PyDict []), (''confirm'', PyInt 1)]"
                              sample_env sample_form]
    confirmation_required [of "[(''confirm'', PyBool False)]" sample_env sample_form]
    confirmation_required [of "[(''submission_ids'', PyList []), (''confirm'', PyBool True)]"
                              sample_env sample_form]
  by (simp add: sample_form_def get_base_query_def)

section \<open>Properties of bulk delete\<close>

subsection \<open>Connecting and disconnecting receivers\<close>

lemma set_delete_first: "set (delete_first key receivers) \<subseteq> set receivers"
  by (induction receivers) (auto split: if_splits)

lemma keys_delete_first: "fst ` set (delete_first key receivers) \<subseteq> fst ` set receivers"
  by (rule image_mono [OF set_delete_first])

lemma distinct_delete_first:
  "distinct (map fst receivers) \<Longrightarrow> distinct (map fst (delete_first key receivers))"
proof (induction receivers)
  case Nil
  then show ?case by simp
next
  case (Cons p receivers)
  obtain k r where p: "p = (k, r)" by (cases p)
  from Cons.prems p have "k \<notin> fst ` set receivers" and "distinct (map fst receivers)"
    by auto
  with Cons.IH keys_delete_first [of key receivers] p show ?case
    by auto
qed

lemma key_gone_delete_first:
  "distinct (map fst receivers) \<Longrightarrow> key \<notin> fst ` set (delete_first key receivers)"
proof (induction receivers)
  case Nil
  then show ?case by simp
next
  case (Cons p receivers)
  obtain k r where p: "p = (k, r)" by (cases p)
  with Cons show ?case by (cases "k = key") auto
qed

lemma key_sender_make_key [simp]: "key_sender (make_key r s uid) = s"
  by (cases uid) (simp_all add: make_key_def)

lemma connect_fresh:
  "make_key r s uid \<notin> fst ` set receivers \<Longrightarrow>
   connect r s uid receivers = receivers @ [(make_key r s uid, r)]"
  by (simp add: connect_def)

lemma live_connect_fresh:
  "make_key r s uid \<notin> fst ` set receivers \<Longrightarrow>
   r \<in> set (live_receivers (connect r s uid receivers) s)"
  by (simp add: connect_fresh live_receivers_def)

lemma live_connect_mono:
  "x \<in> set (live_receivers receivers s') \<Longrightarrow>
   x \<in> set (live_receivers (connect r s uid receivers) s')"
  by (auto simp: connect_def live_receivers_def Let_def)

lemma distinct_connect:
  "distinct (map fst receivers) \<Longrightarrow> distinct (map fst (connect r s uid receivers))"
  by (auto simp: connect_def Let_def)

lemma signals_delete_postgres_and_mongo:
  "delete_postgres_and_mongo e form pg mg w = (res, w') \<Longrightarrow>
   pre_delete w' = pre_delete w \<and> post_delete w' = post_delete w"
  unfolding delete_postgres_and_mongo_def Let_def
  by (auto split: sum.splits prod.splits)

lemma reconnect_after_disconnect:
  assumes wf: "signals_wf w"
    and pre: "pre_delete w' = pre_delete (disconnect_signals w)"
    and post: "post_delete w' = post_delete (disconnect_signals w)"
  shows "triggers_connected (connect_signals w') \<and> signals_wf (connect_signals w')"
proof -
  let ?k1 = "make_key Nullify_exports_time_of_last_submission Instance
               (Some ''nullify_exports_time_of_last_submission'')"
  let ?k2 = "make_key Update_xform_submission_count_delete Instance
               (Some ''update_xform_submission_count_delete'')"
  let ?k0 = "make_key Remove_from_mongo ParsedInstance None"
  from wf have dpre: "distinct (map fst (pre_delete w))"
    and dpost: "distinct (map fst (post_delete w))"
    by (simp_all add: signals_wf_def)
  have pre': "pre_delete w' = delete_first ?k0 (pre_delete w)"
    using pre by (simp add: disconnect_signals_def disconnect_def Let_def)
  have post': "post_delete w' = delete_first ?k2 (delete_first ?k1 (post_delete w))"
    using post by (simp add: disconnect_signals_def disconnect_def Let_def)
  have k0: "?k0 \<notin> fst ` set (pre_delete w')"
    unfolding pre' by (rule key_gone_delete_first [OF dpre])
  have d1: "distinct (map fst (delete_first ?k1 (post_delete w)))"
    by (rule distinct_delete_first [OF dpost])
  have k2: "?k2 \<notin> fst ` set (post_delete w')"
    unfolding post' by (rule key_gone_delete_first [OF d1])
  have "?k1 \<notin> fst ` set (delete_first ?k1 (post_delete w))"
    by (rule key_gone_delete_first [OF dpost])
  then have k1: "?k1 \<notin> fst ` set (post_delete w')"
    unfolding post' using keys_delete_first by blast
  have dpre': "distinct (map fst (pre_delete w'))"
    unfolding pre' by (rule distinct_delete_first [OF dpre])
  have dpost': "distinct (map fst (post_delete w'))"
    unfolding post' by (rule distinct_delete_first [OF d1])
  let ?p1 = "connect Nullify_exports_time_of_last_submission Instance
               (Some ''nullify_exports_time_of_last_submission'') (post_delete w')"
  have a: "Remove_from_mongo \<in>
             set (live_receivers (connect Remove_from_mongo ParsedInstance None (pre_delete w'))
                    ParsedInstance)"
    by (rule live_connect_fresh [OF k0])
  have b: "Nullify_exports_time_of_last_submission \<in> set (live_receivers ?p1 Instance)"
    by (rule live_connect_fresh [OF k1])
  have "?k2 \<notin> fst ` set ?p1"
    using k2 by (simp add: connect_fresh [OF k1] make_key_def)
  then have c: "Update_xform_submission_count_delete \<in>
                  set (live_receivers
                         (connect Update_xform_submission_count_delete Instance
                            (Some ''update_xform_submission_count_delete'') ?p1) Instance)"
    by (rule live_connect_fresh)
  have tc: "triggers_connected (connect_signals w')"
    using a live_connect_mono [OF b] c
    by (simp add: triggers_connected_def connect_signals_def Let_def)
  have wf': "signals_wf (connect_signals w')"
    using dpre' dpost'
    by (simp add: signals_wf_def connect_signals_def Let_def distinct_connect)
  from tc wf' show ?thesis ..
qed

lemma triggers_in_single_delete:
  "triggers_connected w \<Longrightarrow>
   set [Remove_from_mongo, Nullify_exports_time_of_last_submission,
        Update_xform_submission_count_delete] \<subseteq> set (single_delete_receivers w)"
  by (simp add: triggers_connected_def single_delete_receivers_def)

subsection \<open>The suspended receivers are connected again\<close>

text \<open>
  Claim C3. Take signals whose lookup keys are distinct (the dispatcher keeps them so)
  and on which the three per-row receivers are connected. After \<^verbatim>\<open>bulk_delete\<close>,
  whatever the object lookup, the resolver, the two deletions and the two updates of the
  form return or raise, the three receivers are connected again, so the signals of a
  later single-row delete call them; the keys are still distinct.
\<close>

theorem bulk_delete_restores_triggers:
  assumes wf: "signals_wf w" and tc: "triggers_connected w"
  shows "triggers_connected (snd (bulk_delete e w)) \<and>
         signals_wf (snd (bulk_delete e w)) \<and>
         set [Remove_from_mongo, Nullify_exports_time_of_last_submission,
              Update_xform_submission_count_delete]
           \<subseteq> set (single_delete_receivers (snd (bulk_delete e w)))"
proof -
  have main: "triggers_connected (snd (bulk_delete e w)) \<and> signals_wf (snd (bulk_delete e w))"
  proof (cases "get_object e")
    case (Inl err)
    then show ?thesis using wf tc by (simp add: bulk_delete_def)
  next
    case (Inr form)
    let ?r = "build_db_queries e form (data w)"
    let ?w1 = "w\<lparr>data := request_data_after ?r, store_log := store_log w @ store_ops ?r\<rparr>"
    have wf1: "signals_wf ?w1" and tc1: "triggers_connected ?w1"
      using wf tc by (simp_all add: signals_wf_def triggers_connected_def)
    show ?thesis
    proof (cases "result ?r")
      case (Inl err)
      with Inr wf1 tc1 show ?thesis by (simp add: bulk_delete_def Let_def)
    next
      case res: (Inr filters)
      obtain pg mg where filters: "filters = (pg, mg)" by (cases filters)
      obtain out w2 where
        run: "delete_postgres_and_mongo e form pg mg (disconnect_signals ?w1) = (out, w2)"
        by (cases "delete_postgres_and_mongo e form pg mg (disconnect_signals ?w1)")
      from signals_delete_postgres_and_mongo [OF run]
      have "pre_delete w2 = pre_delete (disconnect_signals ?w1)"
        and "post_delete w2 = post_delete (disconnect_signals ?w1)"
        by simp_all
      from reconnect_after_disconnect [OF wf1 this]
      have fin: "triggers_connected (connect_signals w2) \<and> signals_wf (connect_signals w2)" .
      have "snd (bulk_delete e w) = connect_signals w2"
        using Inr res filters run by (simp add: bulk_delete_def Let_def split: sum.splits)
      with fin show ?thesis by simp
    qed
  qed
  with triggers_in_single_delete [of "snd (bulk_delete e w)"] show ?thesis by blast
qed

theorem bulk_delete_restores_triggers_witness:
  "signals_wf sample_world \<and> triggers_connected sample_world \<and>
   \<not> triggers_connected (disconnect_signals sample_world) \<and>
   fst (bulk_delete sample_env sample_world) = Inl (Raised ''OperationalError'') \<and>
   triggers_connected (snd (bulk_delete sample_env sample_world))"
proof -
  have wf: "signals_wf sample_world"
    by (simp add: signals_wf_def sample_world_def)
  have tc: "triggers_connected sample_world"
    by (simp add: triggers_connected_def sample_world_def live_receivers_def)
  have off: "\<not> triggers_connected (disconnect_signals sample_world)"
    by (simp add: triggers_connected_def sample_world_def live_receivers_def
          disconnect_signals_def disconnect_def make_key_def Let_def)
  have raised: "fst (bulk_delete sample_env sample_world) = Inl (Raised ''OperationalError'')"
    by (simp add: bulk_delete_def build_db_queries_def query_scenario_def
          submission_ids_scenario_def delete_postgres_and_mongo_def sample_env_def
          sample_world_def sample_form_def read_digits_def dict_update_def Let_def)
  from bulk_delete_restores_triggers [OF wf tc, of sample_env] wf tc off raised
  show ?thesis by simp
qed

end
